theory Spec2Isabelle
  imports Main
begin

section \<open>Shell quoting\<close>

text \<open>
  \<^verbatim>\<open>generate_command\<close> passes every user-supplied string through \<^verbatim>\<open>shlex.quote\<close> of
  the Python standard library:
  \<^verbatim>\<open>
  _find_unsafe = re.compile(r'[^\w@%+=:,./-]', re.ASCII).search

  def quote(s):
      if not s:
          return "''"
      if _find_unsafe(s) is None:
          return s
      return "'" + s.replace("'", "'\"'\"'") + "'"
  \<close>
  Strings are lists of characters. With \<^verbatim>\<open>re.ASCII\<close> the class \<^verbatim>\<open>\w\<close> is
  \<^verbatim>\<open>[a-zA-Z0-9_]\<close>, so every character outside ASCII is unsafe whatever its encoding.
\<close>

abbreviation squote :: char where "squote \<equiv> CHR 0x27"
abbreviation dquote :: char where "dquote \<equiv> CHR 0x22"
abbreviation backslash :: char where "backslash \<equiv> CHR 0x5C"
abbreviation newline :: char where "newline \<equiv> CHR 0x0A"

definition word_char :: "char \<Rightarrow> bool" where
  "word_char c =
     (let n = (of_char c :: nat)
      in (97 \<le> n \<and> n \<le> 122) \<or> (65 \<le> n \<and> n \<le> 90) \<or> (48 \<le> n \<and> n \<le> 57) \<or> c = CHR ''_'')"

definition unsafe_char :: "char \<Rightarrow> bool" where
  "unsafe_char c = (\<not> (word_char c \<or> c \<in> set ''@%+=:,./-''))"

definition find_unsafe :: "string \<Rightarrow> char option" where
  "find_unsafe s = find unsafe_char s"

fun replace_squote :: "string \<Rightarrow> string" where
  "replace_squote [] = []"
| "replace_squote (c # cs) =
     (if c = squote then [squote, dquote, squote, dquote, squote] @ replace_squote cs
      else c # replace_squote cs)"

definition quote :: "string \<Rightarrow> string" where
  "quote s =
     (if s = [] then [squote, squote]
      else if find_unsafe s = None then s
      else [squote] @ replace_squote s @ [squote])"

text \<open>
  Modelled from the spec: the inverse \<^verbatim>\<open>unquote\<close> is no code of the repository; the
  specification names it as what a POSIX-compatible shell does with one word of a command
  line. The model is quote removal on a single word: outside quotes a backslash makes the
  next character literal (and removes a following newline), inside single quotes every
  character is literal, inside double quotes a backslash escapes only
  \<^verbatim>\<open>$ ` " \\<close> and newline. The result is \<open>None\<close> when the text is not exactly one
  literal word: it is empty, a quote is left open, a blank or an operator character
  stands unquoted (the shell would split the word or start an operator there), or an
  expansion, glob, brace, history, comment or tilde character is active.

  A shell cannot hold the character NUL in a word; the shells drop it from the text they
  read, and so does \<open>unquote\<close>, before anything else.

  \<open>shell_meta\<close> are the characters that are special to a shell in an argument of a
  command: the ones POSIX requires to be quoted, the ones it lists as special under
  conditions (\<^verbatim>\<open>* ? [ # ~\<close>), and \<^verbatim>\<open>] { } ! ^\<close>, special to common shells. The
  characters \<^verbatim>\<open>=\<close> and \<^verbatim>\<open>%\<close>, which POSIX lists as special only in an assignment word
  before the command name and in a job name, are ordinary in an argument.
\<close>

abbreviation nul :: char where "nul \<equiv> CHR 0x00"

definition shell_meta :: "char \<Rightarrow> bool" where
  "shell_meta c =
     (c \<in> set ''|&;<>()$`*?[]#~{}!^ '' \<or> c = CHR 0x09 \<or> c = newline
      \<or> c = backslash \<or> c = squote \<or> c = dquote)"

fun unquoted :: "string \<Rightarrow> string option"
  and single_quoted :: "string \<Rightarrow> string option"
  and double_quoted :: "string \<Rightarrow> string option" where
  "unquoted [] = Some []"
| "unquoted (c # cs) =
     (if c = squote then single_quoted cs
      else if c = dquote then double_quoted cs
      else if c = backslash then
        (case cs of
           [] \<Rightarrow> None
         | d # ds \<Rightarrow> if d = newline then unquoted ds else map_option ((#) d) (unquoted ds))
      else if shell_meta c then None
      else map_option ((#) c) (unquoted cs))"
| "single_quoted [] = None"
| "single_quoted (c # cs) =
     (if c = squote then unquoted cs else map_option ((#) c) (single_quoted cs))"
| "double_quoted [] = None"
| "double_quoted (c # cs) =
     (if c = dquote then unquoted cs
      else if c = backslash then
        (case cs of
           [] \<Rightarrow> None
         | d # ds \<Rightarrow>
             if d = newline then double_quoted ds
             else if d \<in> set [CHR ''$'', CHR ''`'', dquote, backslash]
               then map_option ((#) d) (double_quoted ds)
             else map_option (\<lambda>r. backslash # d # r) (double_quoted ds))
      else if c = CHR ''$'' \<or> c = CHR ''`'' then None
      else map_option ((#) c) (double_quoted cs))"

definition unquote :: "string \<Rightarrow> string option" where
  "unquote w =
     (let text = filter (\<lambda>c. c \<noteq> nul) w
      in if text = [] then None else unquoted text)"

text \<open>
  The characters of a word that stand outside all quoting: not between single quotes, not
  between double quotes, not after a backslash. Between double quotes \<^verbatim>\<open>$\<close> and the
  backquote keep their meaning, so they count as standing outside. A metacharacter is
  unescaped in a word when it is among these.
\<close>

fun outside_quotes :: "string \<Rightarrow> string"
  and inside_single :: "string \<Rightarrow> string"
  and inside_double :: "string \<Rightarrow> string" where
  "outside_quotes [] = []"
| "outside_quotes (c # cs) =
     (if c = squote then inside_single cs
      else if c = dquote then inside_double cs
      else if c = backslash then
        (case cs of [] \<Rightarrow> [backslash] | d # ds \<Rightarrow> outside_quotes ds)
      else c # outside_quotes cs)"
| "inside_single [] = []"
| "inside_single (c # cs) = (if c = squote then outside_quotes cs else inside_single cs)"
| "inside_double [] = []"
| "inside_double (c # cs) =
     (if c = dquote then outside_quotes cs
      else if c = backslash then (case cs of [] \<Rightarrow> [] | d # ds \<Rightarrow> inside_double ds)
      else if c = CHR ''$'' \<or> c = CHR ''`'' then c # inside_double cs
      else inside_double cs)"

definition unescaped_meta :: "string \<Rightarrow> string" where
  "unescaped_meta w = filter shell_meta (outside_quotes w)"

section \<open>Path join and string join of the standard library\<close>

text \<open>
  \<^verbatim>\<open>os.path.join(a, b)\<close> on a POSIX system, for one component \<open>b\<close>:
  \<^verbatim>\<open>
  path = a
  if b.startswith(sep):
      path = b
  elif not path or path.endswith(sep):
      path += b
  else:
      path += sep + b
  return path
  \<close>
\<close>

definition path_join :: "string \<Rightarrow> string \<Rightarrow> string" where
  "path_join a b =
     (if take 1 b = ''/'' then b
      else if a = [] \<or> last a = CHR ''/'' then a @ b
      else a @ ''/'' @ b)"

text \<open>\<^verbatim>\<open>sep.join(xs)\<close>: the elements with \<open>sep\<close> between neighbours.\<close>

fun str_join :: "string \<Rightarrow> string list \<Rightarrow> string" where
  "str_join sep [] = []"
| "str_join sep [x] = x"
| "str_join sep (x # y # ys) = x @ sep @ str_join sep (y # ys)"

section \<open>The validated recipe\<close>

text \<open>
  \<^verbatim>\<open>Step = collections.namedtuple('Step', 'args dir_ env name')\<close> and
  \<^verbatim>\<open>CloudBuild = collections.namedtuple('CloudBuild', 'output_script run steps')\<close>.
  The field \<^verbatim>\<open>dir_\<close> is called \<open>dir\<close> here, a name ending in an underscore being
  reserved.
\<close>

record Step =
  args :: "string list"
  dir :: string
  env :: "string list"
  name :: string

record CloudBuild =
  output_script :: string
  run :: bool
  steps :: "Step list"

section \<open>Command lowering\<close>

text \<open>
  The loop \<^verbatim>\<open>for env in step.env: quoted_env.extend(['--env', shlex.quote(env)])\<close>
  is a left fold that appends two tokens to the accumulated list for every entry.
\<close>

definition generate_command :: "Step \<Rightarrow> string list" where
  "generate_command step =
     (let quoted_args = map quote (args step);
          quoted_env = foldl (\<lambda>acc e. acc @ [''--env'', quote e]) [] (env step);
          quoted_name = quote (name step);
          workdir = ''/workspace'';
          workdir = (if dir step \<noteq> [] then path_join workdir (quote (dir step)) else workdir);
          process_args =
            [''docker'',
             ''run'',
             ''--volume'',
             ''/var/run/docker.sock:/var/run/docker.sock'',
             ''--volume'',
             ''/root/.docker:/root/.docker'',
             ''--volume'',
             ''${HOST_WORKSPACE}:/workspace'',
             ''--workdir'',
             workdir] @ quoted_env @ [quoted_name] @ quoted_args
      in process_args)"

text \<open>
  The value of a flag in a token list: the token that follows the first occurrence of the
  flag, if there is one.
\<close>

fun flag_value :: "string \<Rightarrow> string list \<Rightarrow> string option" where
  "flag_value f (x # y # ys) = (if x = f then Some y else flag_value f (y # ys))"
| "flag_value f _ = None"

text \<open>
  The reading of the working directory as quoted segment by segment: the directory split at
  every separator (\<^verbatim>\<open>str.split('/')\<close>), each piece quoted, the quoted pieces joined
  with the separator again.
\<close>

fun split_sep :: "string \<Rightarrow> string list" where
  "split_sep [] = [[]]"
| "split_sep (c # cs) =
     (if c = CHR ''/'' then [] # split_sep cs
      else (case split_sep cs of [] \<Rightarrow> [[c]] | w # ws \<Rightarrow> (c # w) # ws))"

definition quote_segments :: "string \<Rightarrow> string" where
  "quote_segments d = str_join ''/'' (map quote (split_sep d))"

section \<open>Script assembly\<close>

definition BUILD_SCRIPT_HEADER :: string where
  \<open>BUILD_SCRIPT_HEADER = concat (map (\<lambda>l. l @ [newline])
     [''#!/bin/bash'',
      ''# This is a generated file.  Do not edit.'',
      [],
      ''set -euo pipefail'',
      [],
      ''SOURCE_DIR=.'',
      [],
      ''# Setup staging directory'',
      ''HOST_WORKSPACE=$(mktemp -d)'',
      ''function cleanup {'',
      ''    if [ "${HOST_WORKSPACE}" != '/' -a -d "${HOST_WORKSPACE}" ]; then'',
      ''        rm -rf "${HOST_WORKSPACE}"'',
      ''    fi'',
      ''}'',
      ''trap cleanup EXIT'',
      [],
      ''# Copy source to staging directory'',
      ''echo "Copying source to staging directory ${HOST_WORKSPACE}"'',
      ''rsync -avzq --exclude=.git "${SOURCE_DIR}" "${HOST_WORKSPACE}"'',
      [],
      ''# Build commands''])\<close>

definition BUILD_SCRIPT_FOOTER :: string where
  \<open>BUILD_SCRIPT_FOOTER = concat (map (\<lambda>l. l @ [newline])
     [''# End of build commands'',
      [],
      ''echo "Build completed successfully"''])\<close>

text \<open>
  \<^verbatim>\<open>outfile\<close> is a fresh \<^verbatim>\<open>io.StringIO()\<close>, only ever written at its end; its value
  is the text written so far.
\<close>

definition generate_script :: "CloudBuild \<Rightarrow> string" where
  "generate_script cloudbuild =
     (let outfile = [];
          outfile = outfile @ BUILD_SCRIPT_HEADER;
          docker_commands = map generate_command (steps cloudbuild);
          outfile = foldl (\<lambda>out docker_command.
                      out @ (str_join '' '' docker_command @ [newline, newline]))
                    outfile docker_commands;
          outfile = outfile @ BUILD_SCRIPT_FOOTER;
          s = outfile
      in s)"

section \<open>The decoded document\<close>

text \<open>
  \<^verbatim>\<open>yaml.safe_load\<close> returns Python values: the scalars \<^verbatim>\<open>None\<close> (a YAML null, and
  the empty document), booleans, integers, floating-point numbers and strings, and the
  structured values, lists and dictionaries. A floating-point number is kept as the text
  that \<^verbatim>\<open>str\<close> prints for it, which determines the number; nothing below computes with
  it. A dictionary is an association list with string keys, looked up with \<open>map_of\<close>.
  \<open>pytype\<close> is what \<^verbatim>\<open>type(v)\<close> returns.
\<close>

datatype pyval =
    PNone
  | PBool bool
  | PInt int
  | PFloat string
  | PStr string
  | PList "pyval list"
  | PDict "(string \<times> pyval) list"

datatype pytype =
  none_type | bool_type | int_type | float_type | str_type | list_type | dict_type

fun py_type :: "pyval \<Rightarrow> pytype" where
  "py_type PNone = none_type"
| "py_type (PBool _) = bool_type"
| "py_type (PInt _) = int_type"
| "py_type (PFloat _) = float_type"
| "py_type (PStr _) = str_type"
| "py_type (PList _) = list_type"
| "py_type (PDict _) = dict_type"

text \<open>A field is named by a key of a dictionary or by a position in a list.\<close>

datatype key = Name string | Index nat

text \<open>
  Every failure of validation is a \<^verbatim>\<open>ValueError\<close>; the messages are kept as the format
  string that produced them together with its arguments:
  \<^item> \<open>ContentsNotDict config t\<close>:
    \<^verbatim>\<open>'Expected {} contents to be of type "dict", but found type "{}"'\<close>;
  \<^item> \<open>NoSteps config\<close>: \<^verbatim>\<open>'No steps defined in {}'\<close>;
  \<^item> \<open>StepNotDict t\<close>: \<^verbatim>\<open>'Expected step to be of type "dict", but found type "{}"'\<close>;
  \<^item> \<open>FieldType k expected found\<close>: the message of the field extraction, which says what
    was expected and what was found;
  \<^item> \<open>ClosedFile\<close>: \<^verbatim>\<open>'I/O operation on closed file'\<close>, of the standard library.
  \<^verbatim>\<open>TypeError\<close> is what the interpreter raises when an operation meets a value of the
  wrong type.
\<close>

datatype message =
    ContentsNotDict string pytype
  | NoSteps string
  | StepNotDict pytype
  | FieldType key pytype pytype
  | ClosedFile

datatype error = ValueError message | TypeError

definition bind_result :: "error + 'a \<Rightarrow> ('a \<Rightarrow> error + 'b) \<Rightarrow> error + 'b" where
  "bind_result r f = (case r of Inl e \<Rightarrow> Inl e | Inr x \<Rightarrow> f x)"

text \<open>A list comprehension whose element expression may raise: the first error ends it.\<close>

fun collect :: "(error + 'a) list \<Rightarrow> error + 'a list" where
  "collect [] = Inr []"
| "collect (r # rs) = bind_result r (\<lambda>x. bind_result (collect rs) (\<lambda>xs. Inr (x # xs)))"

text \<open>\<^verbatim>\<open>str(n)\<close> for an integer: its decimal digits, with a minus sign when negative.\<close>

definition digit_char :: "nat \<Rightarrow> char" where
  "digit_char d = ''0123456789'' ! d"

fun str_nat :: "nat \<Rightarrow> string" where
  "str_nat n = (if n < 10 then [digit_char n] else str_nat (n div 10) @ [digit_char (n mod 10)])"

declare str_nat.simps [simp del]

definition str_int :: "int \<Rightarrow> string" where
  "str_int i = (if i < 0 then CHR ''-'' # str_nat (nat (- i)) else str_nat (nat i))"

text \<open>\<^verbatim>\<open>str(v)\<close> for a scalar \<open>v\<close>; \<open>None\<close> stands for a structured value.\<close>

fun py_str :: "pyval \<Rightarrow> string option" where
  "py_str PNone = Some ''None''"
| "py_str (PBool b) = Some (if b then ''True'' else ''False'')"
| "py_str (PInt n) = Some (str_int n)"
| "py_str (PFloat r) = Some r"
| "py_str (PStr s) = Some s"
| "py_str (PList _) = None"
| "py_str (PDict _) = None"

section \<open>Field extraction\<close>

text \<open>
  Modelled from the spec: \<^verbatim>\<open>validation_utils.get_field_value(container, field_name,
  field_type)\<close> is not among the sources. The specification gives its contract: look the
  field up; if it is absent return the empty value of the type; if it is present assert
  its type and return it; a mismatch fails validation with a message saying what was
  expected and what was found. For the elements of a sequence every scalar that is not a
  string (a number, a boolean, a null) is turned into its string form, while a list or a
  mapping is rejected; no other coercion is permitted. \<open>get_field_value_list\<close> is the function at \<^verbatim>\<open>field_type = list\<close> and
  \<open>get_field_value_str\<close> at \<^verbatim>\<open>field_type = str\<close>.

  \<open>lookup_field\<close> is \<^verbatim>\<open>container[field_name]\<close> with \<^verbatim>\<open>KeyError\<close> and \<^verbatim>\<open>IndexError\<close>
  read as absence. The callers subscript a dictionary by a name and a list by a position
  only.
\<close>

fun lookup_field :: "pyval \<Rightarrow> key \<Rightarrow> pyval option" where
  "lookup_field (PDict kvs) (Name k) = map_of kvs k"
| "lookup_field (PList xs) (Index i) = (if i < length xs then Some (xs ! i) else None)"
| "lookup_field _ _ = None"

definition get_field_value_list :: "pyval \<Rightarrow> key \<Rightarrow> error + pyval list" where
  "get_field_value_list container field_name =
     (case lookup_field container field_name of
        None \<Rightarrow> Inr []
      | Some (PList xs) \<Rightarrow> Inr xs
      | Some v \<Rightarrow> Inl (ValueError (FieldType field_name list_type (py_type v))))"

definition get_field_value_str :: "pyval \<Rightarrow> key \<Rightarrow> error + string" where
  "get_field_value_str container field_name =
     (case lookup_field container field_name of
        None \<Rightarrow> Inr []
      | Some (PStr s) \<Rightarrow> Inr s
      | Some v \<Rightarrow>
          (case field_name of
             Index _ \<Rightarrow>
               (case py_str v of
                  Some s \<Rightarrow> Inr s
                | None \<Rightarrow> Inl (ValueError (FieldType field_name str_type (py_type v))))
           | Name _ \<Rightarrow> Inl (ValueError (FieldType field_name str_type (py_type v)))))"

section \<open>Validation\<close>

definition get_step :: "pyval \<Rightarrow> error + Step" where
  "get_step raw_step =
     (case raw_step of
        PDict _ \<Rightarrow>
          bind_result (get_field_value_list raw_step (Name ''args'')) (\<lambda>raw_args.
          bind_result (collect (map (\<lambda>index. get_field_value_str (PList raw_args) (Index index))
                                    [0..<length raw_args])) (\<lambda>args'.
          bind_result (get_field_value_str raw_step (Name ''dir'')) (\<lambda>dir'.
          bind_result (get_field_value_list raw_step (Name ''env'')) (\<lambda>raw_env.
          bind_result (collect (map (\<lambda>index. get_field_value_str (PList raw_env) (Index index))
                                    [0..<length raw_env])) (\<lambda>env'.
          bind_result (get_field_value_str raw_step (Name ''name'')) (\<lambda>name'.
          Inr \<lparr>args = args', dir = dir', env = env', name = name'\<rparr>))))))
      | _ \<Rightarrow> Inl (ValueError (StepNotDict (py_type raw_step))))"

text \<open>
  The command line flags (\<^verbatim>\<open>argparse.Namespace\<close>) that \<^verbatim>\<open>get_cloudbuild\<close> reads:
  \<^verbatim>\<open>args.config\<close>, \<^verbatim>\<open>args.output_script\<close> and \<^verbatim>\<open>args.run\<close>.
\<close>

record Namespace =
  config :: string
  arg_output_script :: string
  arg_run :: bool

definition get_cloudbuild :: "pyval \<Rightarrow> Namespace \<Rightarrow> error + CloudBuild" where
  "get_cloudbuild raw_config flags =
     (case raw_config of
        PDict _ \<Rightarrow>
          bind_result (get_field_value_list raw_config (Name ''steps'')) (\<lambda>raw_steps.
          if raw_steps = [] then Inl (ValueError (NoSteps (config flags)))
          else bind_result (collect (map get_step raw_steps)) (\<lambda>steps'.
            Inr \<lparr>output_script = arg_output_script flags, run = arg_run flags, steps = steps'\<rparr>))
      | _ \<Rightarrow> Inl (ValueError (ContentsNotDict (config flags) (py_type raw_config))))"

text \<open>
  What the specification says of the fields of a step, field by field: an absent field is
  the empty value, a string field must be a string, a sequence field must be a list each of
  whose elements is a string or another scalar (taken in its string form: a null as
  \<^verbatim>\<open>None\<close>, a boolean as \<^verbatim>\<open>True\<close> or \<^verbatim>\<open>False\<close>, a number as its digits); \<open>None\<close>
  stands for a field that validation must reject.
\<close>

fun element_str :: "pyval \<Rightarrow> string option" where
  "element_str (PStr s) = Some s"
| "element_str PNone = Some ''None''"
| "element_str (PBool True) = Some ''True''"
| "element_str (PBool False) = Some ''False''"
| "element_str (PInt n) = Some (str_int n)"
| "element_str (PFloat r) = Some r"
| "element_str (PList _) = None"
| "element_str (PDict _) = None"

fun elements_str :: "pyval list \<Rightarrow> string list option" where
  "elements_str [] = Some []"
| "elements_str (v # vs) =
     (case element_str v of
        None \<Rightarrow> None
      | Some s \<Rightarrow> map_option ((#) s) (elements_str vs))"

text \<open>What extracting the element at position \<open>i\<close> of a sequence gives.\<close>

definition element_result :: "nat \<Rightarrow> pyval \<Rightarrow> error + string" where
  "element_result i v =
     (case element_str v of
        Some s \<Rightarrow> Inr s
      | None \<Rightarrow> Inl (ValueError (FieldType (Index i) str_type (py_type v))))"

fun string_field :: "pyval option \<Rightarrow> string option" where
  "string_field None = Some []"
| "string_field (Some (PStr s)) = Some s"
| "string_field (Some _) = None"

fun sequence_field :: "pyval option \<Rightarrow> string list option" where
  "sequence_field None = Some []"
| "sequence_field (Some (PList vs)) = elements_str vs"
| "sequence_field (Some _) = None"

section \<open>Command lowering on arbitrary field values\<close>

text \<open>
  A namedtuple holds whatever it is given. \<open>DynStep\<close> is a \<^verbatim>\<open>Step\<close> with arbitrary
  values in its fields, and \<open>generate_command_dyn\<close> is \<^verbatim>\<open>generate_command\<close> as the
  interpreter runs it on such a value, with the run-time type errors as results:
  \<^item> \<open>truthy\<close> is the truth value of \<^verbatim>\<open>if v:\<close> and \<^verbatim>\<open>not v\<close>;
  \<^item> \<open>py_iter\<close> is iteration: over the elements of a list, the characters of a string, the
    keys of a dictionary; no other value is iterable;
  \<^item> \<open>quote_dyn\<close> is \<^verbatim>\<open>shlex.quote\<close>: its first test returns \<^verbatim>\<open>"''"\<close> for every
    falsy value, its regular expression search raises on every other value that is not a
    string.
\<close>

record DynStep =
  dyn_args :: pyval
  dyn_dir :: pyval
  dyn_env :: pyval
  dyn_name :: pyval

fun truthy :: "pyval \<Rightarrow> bool" where
  "truthy PNone = False"
| "truthy (PBool b) = b"
| "truthy (PInt n) = (n \<noteq> 0)"
| "truthy (PFloat r) = (r \<noteq> ''0.0'' \<and> r \<noteq> ''-0.0'')"
| "truthy (PStr s) = (s \<noteq> [])"
| "truthy (PList xs) = (xs \<noteq> [])"
| "truthy (PDict kvs) = (kvs \<noteq> [])"

fun py_iter :: "pyval \<Rightarrow> error + pyval list" where
  "py_iter (PList xs) = Inr xs"
| "py_iter (PStr s) = Inr (map (\<lambda>c. PStr [c]) s)"
| "py_iter (PDict kvs) = Inr (map (\<lambda>kv. PStr (fst kv)) kvs)"
| "py_iter _ = Inl TypeError"

fun quote_dyn :: "pyval \<Rightarrow> error + string" where
  "quote_dyn (PStr s) = Inr (quote s)"
| "quote_dyn v = (if \<not> truthy v then Inr [squote, squote] else Inl TypeError)"

fun quoted_env_loop :: "string list \<Rightarrow> pyval list \<Rightarrow> error + string list" where
  "quoted_env_loop quoted_env [] = Inr quoted_env"
| "quoted_env_loop quoted_env (e # es) =
     bind_result (quote_dyn e) (\<lambda>q. quoted_env_loop (quoted_env @ [''--env'', q]) es)"

definition generate_command_dyn :: "DynStep \<Rightarrow> error + string list" where
  "generate_command_dyn step =
     bind_result (py_iter (dyn_args step)) (\<lambda>arg_values.
     bind_result (collect (map quote_dyn arg_values)) (\<lambda>quoted_args.
     bind_result (py_iter (dyn_env step)) (\<lambda>env_values.
     bind_result (quoted_env_loop [] env_values) (\<lambda>quoted_env.
     bind_result (quote_dyn (dyn_name step)) (\<lambda>quoted_name.
     bind_result (if truthy (dyn_dir step)
                  then bind_result (quote_dyn (dyn_dir step)) (\<lambda>q. Inr (path_join ''/workspace'' q))
                  else Inr ''/workspace'') (\<lambda>workdir.
     Inr ([''docker'',
           ''run'',
           ''--volume'',
           ''/var/run/docker.sock:/var/run/docker.sock'',
           ''--volume'',
           ''/root/.docker:/root/.docker'',
           ''--volume'',
           ''${HOST_WORKSPACE}:/workspace'',
           ''--workdir'',
           workdir] @ quoted_env @ [quoted_name] @ quoted_args)))))))"

text \<open>A validated step seen as such a value: strings in \<open>name\<close> and \<open>dir\<close>, lists of strings
  in \<open>args\<close> and \<open>env\<close>.\<close>

definition as_dyn :: "Step \<Rightarrow> DynStep" where
  "as_dyn step =
     \<lparr>dyn_args = PList (map PStr (args step)),
      dyn_dir = PStr (dir step),
      dyn_env = PList (map PStr (env step)),
      dyn_name = PStr (name step)\<rparr>"

section \<open>Script assembly with the interpreter's state\<close>

text \<open>
  \<^verbatim>\<open>generate_script\<close> reads no clock, no source of randomness, no environment variable
  and no file. The state it touches is the two global strings of the module, which it
  reads, and the \<^verbatim>\<open>io.StringIO\<close> object it creates, writes, reads back and closes.
  \<open>World\<close> holds that state: the values bound to \<^verbatim>\<open>BUILD_SCRIPT_HEADER\<close> and
  \<^verbatim>\<open>BUILD_SCRIPT_FOOTER\<close>, and the store of buffer objects, each open with its text or
  closed. An action takes a world and returns a result or an error, and the world after
  it. \<open>generate_script_run\<close> is lines 183 to 192 of the source, statement by statement.
  Writing to a closed buffer, or reading it, raises \<^verbatim>\<open>ValueError\<close>.
\<close>

record World =
  module_header :: string
  module_footer :: string
  buffers :: "nat \<Rightarrow> string option"
  next_buffer :: nat

type_synonym 'a action = "World \<Rightarrow> (error + 'a) \<times> World"

definition action_return :: "'a \<Rightarrow> 'a action" where
  "action_return x w = (Inr x, w)"

definition action_bind :: "'a action \<Rightarrow> ('a \<Rightarrow> 'b action) \<Rightarrow> 'b action" where
  "action_bind m f w = (case m w of (Inl e, w') \<Rightarrow> (Inl e, w') | (Inr x, w') \<Rightarrow> f x w')"

definition StringIO_new :: "nat action" where
  "StringIO_new w =
     (Inr (next_buffer w),
      w\<lparr>buffers := (buffers w)(next_buffer w \<mapsto> []), next_buffer := Suc (next_buffer w)\<rparr>)"

definition StringIO_write :: "nat \<Rightarrow> string \<Rightarrow> unit action" where
  "StringIO_write f s w =
     (case buffers w f of
        None \<Rightarrow> (Inl (ValueError ClosedFile), w)
      | Some b \<Rightarrow> (Inr (), w\<lparr>buffers := (buffers w)(f \<mapsto> b @ s)\<rparr>))"

definition StringIO_getvalue :: "nat \<Rightarrow> string action" where
  "StringIO_getvalue f w =
     (case buffers w f of
        None \<Rightarrow> (Inl (ValueError ClosedFile), w)
      | Some b \<Rightarrow> (Inr b, w))"

definition StringIO_close :: "nat \<Rightarrow> unit action" where
  "StringIO_close f w = (Inr (), w\<lparr>buffers := (buffers w)(f := None)\<rparr>)"

definition read_header :: "string action" where
  "read_header w = (Inr (module_header w), w)"

definition read_footer :: "string action" where
  "read_footer w = (Inr (module_footer w), w)"

fun write_commands :: "nat \<Rightarrow> string list list \<Rightarrow> unit action" where
  "write_commands outfile [] = action_return ()"
| "write_commands outfile (docker_command # rest) =
     action_bind (StringIO_write outfile (str_join '' '' docker_command @ [newline, newline]))
       (\<lambda>_. write_commands outfile rest)"

definition generate_script_run :: "CloudBuild \<Rightarrow> string action" where
  "generate_script_run cloudbuild =
     action_bind StringIO_new (\<lambda>outfile.
     action_bind read_header (\<lambda>header.
     action_bind (StringIO_write outfile header) (\<lambda>_.
     action_bind (write_commands outfile (map generate_command (steps cloudbuild))) (\<lambda>_.
     action_bind read_footer (\<lambda>footer.
     action_bind (StringIO_write outfile footer) (\<lambda>_.
     action_bind (StringIO_getvalue outfile) (\<lambda>s.
     action_bind (StringIO_close outfile) (\<lambda>_.
     action_return s))))))))"

section \<open>Properties of the quoting\<close>

lemma safe_char_plain:
  "\<not> unsafe_char c \<Longrightarrow>
     c \<noteq> squote \<and> c \<noteq> dquote \<and> c \<noteq> backslash \<and> c \<noteq> nul \<and> \<not> shell_meta c"
  by (auto simp: unsafe_char_def word_char_def shell_meta_def)

lemma find_unsafe_Cons:
  "find_unsafe (c # cs) = None \<longleftrightarrow> \<not> unsafe_char c \<and> find_unsafe cs = None"
  by (simp add: find_unsafe_def)

lemma unquoted_safe: "find_unsafe s = None \<Longrightarrow> unquoted s = Some s"
proof (induction s)
  case Nil
  then show ?case by simp
next
  case (Cons c cs)
  from Cons.prems have c: "\<not> unsafe_char c" and cs: "find_unsafe cs = None"
    by (simp_all add: find_unsafe_Cons)
  from safe_char_plain [OF c] Cons.IH [OF cs] show ?case by simp
qed

lemma safe_no_nul: "find_unsafe s = None \<Longrightarrow> filter (\<lambda>c. c \<noteq> nul) s = s"
proof (induction s)
  case Nil
  then show ?case by simp
next
  case (Cons c cs)
  from Cons.prems have c: "\<not> unsafe_char c" and cs: "find_unsafe cs = None"
    by (simp_all add: find_unsafe_Cons)
  from safe_char_plain [OF c] Cons.IH [OF cs] show ?case by simp
qed

lemma outside_quotes_safe: "find_unsafe s = None \<Longrightarrow> outside_quotes s = s"
proof (induction s)
  case Nil
  then show ?case by simp
next
  case (Cons c cs)
  from Cons.prems have c: "\<not> unsafe_char c" and cs: "find_unsafe cs = None"
    by (simp_all add: find_unsafe_Cons)
  from safe_char_plain [OF c] Cons.IH [OF cs] show ?case by simp
qed

lemma safe_not_meta: "find_unsafe s = None \<Longrightarrow> filter shell_meta s = []"
proof (induction s)
  case Nil
  then show ?case by simp
next
  case (Cons c cs)
  from Cons.prems have c: "\<not> unsafe_char c" and cs: "find_unsafe cs = None"
    by (simp_all add: find_unsafe_Cons)
  from safe_char_plain [OF c] Cons.IH [OF cs] show ?case by simp
qed

lemma safe_list_all: "find_unsafe s = None \<Longrightarrow> list_all (\<lambda>c. \<not> unsafe_char c) s"
  by (induction s) (simp_all add: find_unsafe_Cons)

lemma replace_squote_no_nul:
  "filter (\<lambda>c. c \<noteq> nul) (replace_squote s) = replace_squote (filter (\<lambda>c. c \<noteq> nul) s)"
  by (induction s) simp_all

lemma single_quoted_replace:
  "single_quoted (replace_squote s @ squote # rest) = map_option ((@) s) (unquoted rest)"
  by (induction s) (simp_all add: option.map_comp comp_def option.map_ident)

lemma inside_single_replace:
  "inside_single (replace_squote s @ squote # rest) = outside_quotes rest"
  by (induction s) simp_all

lemma quote_safe: "s \<noteq> [] \<Longrightarrow> find_unsafe s = None \<Longrightarrow> quote s = s"
  by (simp add: quote_def)

lemma quote_unsafe: "find_unsafe s \<noteq> None \<Longrightarrow> quote s = squote # replace_squote s @ [squote]"
  by (auto simp: quote_def find_unsafe_def)

lemma unquote_quote: "unquote (quote s) = Some (filter (\<lambda>c. c \<noteq> nul) s)"
proof (cases "s = []")
  case True
  then show ?thesis by (simp add: quote_def unquote_def)
next
  case nonempty: False
  show ?thesis
  proof (cases "find_unsafe s = None")
    case True
    with nonempty show ?thesis
      by (simp add: quote_safe unquote_def unquoted_safe safe_no_nul)
  next
    case False
    then show ?thesis
      by (simp add: quote_unsafe unquote_def replace_squote_no_nul single_quoted_replace)
  qed
qed

lemma outside_quotes_quote:
  "outside_quotes (quote s) = (if find_unsafe s = None then s else [])"
proof (cases "s = []")
  case True
  then show ?thesis by (simp add: quote_def find_unsafe_def)
next
  case nonempty: False
  show ?thesis
  proof (cases "find_unsafe s = None")
    case True
    with nonempty show ?thesis by (simp add: quote_safe outside_quotes_safe)
  next
    case False
    then have "quote s = squote # replace_squote s @ [squote]" by (rule quote_unsafe)
    with False show ?thesis by (auto simp: inside_single_replace)
  qed
qed

text \<open>
  C1, as the code has it: for every string \<open>s\<close> without the character NUL the quoting
  has the round trip \<open>unquote (quote s) = s\<close>, hence quoting the unquoted quoted token
  gives the quoted token again; and for every string \<open>s'\<close>, with NUL or without, no shell
  metacharacter stands unescaped in \<open>quote s'\<close>: every character of \<open>quote s'\<close> outside
  quotes is a letter, a digit or one of \<^verbatim>\<open>_@%+=:,./-\<close>.
\<close>

theorem quote_round_trip:
  "(nul \<notin> set s \<longrightarrow>
      unquote (quote s) = Some s \<and> map_option quote (unquote (quote s)) = Some (quote s))
   \<and> unescaped_meta (quote s') = []
   \<and> list_all (\<lambda>c. \<not> unsafe_char c) (outside_quotes (quote s'))"
proof (intro conjI impI)
  assume "nul \<notin> set s"
  then have "filter (\<lambda>c. c \<noteq> nul) s = s" by (auto simp: filter_id_conv)
  then have round_trip: "unquote (quote s) = Some s" by (simp add: unquote_quote)
  then show "unquote (quote s) = Some s" .
  from round_trip show "map_option quote (unquote (quote s)) = Some (quote s)" by simp
next
  show "unescaped_meta (quote s') = []"
    by (simp add: unescaped_meta_def outside_quotes_quote safe_not_meta)
next
  show "list_all (\<lambda>c. \<not> unsafe_char c) (outside_quotes (quote s'))"
    by (simp add: outside_quotes_quote safe_list_all)
qed

theorem quote_round_trip_witness:
  "nul \<notin> set ''it's $x''
   \<and> unquote (quote ''it's $x'') = Some ''it's $x''
   \<and> map_option quote (unquote (quote ''it's $x'')) = Some (quote ''it's $x'')
   \<and> unescaped_meta (quote ''a;b'') = []"
  using quote_round_trip [of "''it's $x''" "''a;b''"] by simp

text \<open>
  The claim as stated, for every string, fails on a string with the character NUL: no
  shell hands it back.
\<close>

theorem quote_nul_counterexample:
  "unquote (quote [CHR ''a'', nul, CHR ''b'']) = Some ''ab''
   \<and> unquote (quote [CHR ''a'', nul, CHR ''b'']) \<noteq> Some [CHR ''a'', nul, CHR ''b'']"
  by (simp add: unquote_quote)

section \<open>Properties of command lowering\<close>

lemma foldl_append_concat:
  "foldl (\<lambda>acc x. acc @ f x) acc xs = acc @ concat (map f xs)"
  by (induction xs arbitrary: acc) simp_all

lemma generate_command_eq:
  "generate_command step =
     [''docker'', ''run'',
      ''--volume'', ''/var/run/docker.sock:/var/run/docker.sock'',
      ''--volume'', ''/root/.docker:/root/.docker'',
      ''--volume'', ''${HOST_WORKSPACE}:/workspace'',
      ''--workdir'',
      (if dir step = [] then ''/workspace'' else path_join ''/workspace'' (quote (dir step)))]
     @ concat (map (\<lambda>e. [''--env'', quote e]) (env step))
     @ [quote (name step)]
     @ map quote (args step)"
  by (simp add: generate_command_def Let_def
      foldl_append_concat [where f = "\<lambda>e. [''--env'', quote e]"])

lemma workdir_eq:
  "flag_value ''--workdir'' (generate_command step) =
     Some (if dir step = [] then ''/workspace'' else path_join ''/workspace'' (quote (dir step)))"
  by (simp add: generate_command_eq)

lemma find_unsafe_dir_with_space: "find_unsafe ''dir/ with space/'' = Some CHR '' ''"
  by (simp add: find_unsafe_def unsafe_char_def word_char_def)

lemma quote_dir_with_space:
  "quote ''dir/ with space/'' = squote # ''dir/ with space/'' @ [squote]"
  by (simp add: quote_unsafe find_unsafe_dir_with_space)

lemma find_unsafe_etc: "find_unsafe ''/etc'' = None"
  by (simp add: find_unsafe_def unsafe_char_def word_char_def)

text \<open>
  C2, as the code has it: the working directory is not quoted segment by segment. The
  whole \<open>dir\<close> is quoted as one token and that token is put under the workspace root. A
  \<open>dir\<close> with an unsafe character is one quoted token after \<open>/workspace/\<close>: a single
  quote, the \<open>dir\<close> with each single quote in it written \<^verbatim>\<open>'"'"'\<close> and every other
  character, the separators too, unchanged, and a single quote. A \<open>dir\<close> of safe
  characters that does not begin with the separator stands unchanged after
  \<open>/workspace/\<close>.
\<close>

theorem workdir_quotes_whole_dir:
  "(find_unsafe (dir step) \<noteq> None \<longrightarrow>
      flag_value ''--workdir'' (generate_command step) =
        Some (''/workspace/'' @ squote # replace_squote (dir step) @ [squote]))
   \<and> (dir step' \<noteq> [] \<and> find_unsafe (dir step') = None \<and> take 1 (dir step') \<noteq> ''/'' \<longrightarrow>
      flag_value ''--workdir'' (generate_command step') = Some (''/workspace/'' @ dir step'))"
proof (intro conjI impI)
  assume u: "find_unsafe (dir step) \<noteq> None"
  then have "dir step \<noteq> []" by (auto simp: find_unsafe_def)
  with u show "flag_value ''--workdir'' (generate_command step) =
        Some (''/workspace/'' @ squote # replace_squote (dir step) @ [squote])"
    by (simp add: workdir_eq quote_unsafe path_join_def)
next
  assume "dir step' \<noteq> [] \<and> find_unsafe (dir step') = None \<and> take 1 (dir step') \<noteq> ''/''"
  then show "flag_value ''--workdir'' (generate_command step') = Some (''/workspace/'' @ dir step')"
    by (simp add: workdir_eq quote_safe path_join_def)
qed

theorem workdir_quotes_whole_dir_witness:
  \<open>find_unsafe ''dir/ with space/'' \<noteq> None
   \<and> flag_value ''--workdir''
       (generate_command \<lparr>args = [], dir = ''dir/ with space/'', env = [], name = ''aname''\<rparr>) =
       Some (''/workspace/'dir/ with space/'' @ [squote])
   \<and> find_unsafe ''a'b'' \<noteq> None
   \<and> flag_value ''--workdir''
       (generate_command \<lparr>args = [], dir = ''a'b'', env = [], name = ''aname''\<rparr>) =
       Some (''/workspace/'a'"'"'b'' @ [squote])
   \<and> ''adir'' \<noteq> [] \<and> find_unsafe ''adir'' = None \<and> take 1 ''adir'' \<noteq> ''/''
   \<and> flag_value ''--workdir''
       (generate_command \<lparr>args = [], dir = ''adir'', env = [], name = ''aname''\<rparr>) =
       Some ''/workspace/adir''\<close>
proof -
  have safe: "find_unsafe ''adir'' = None"
    by (simp add: find_unsafe_def unsafe_char_def word_char_def)
  have unsafe: "find_unsafe ''a'b'' = Some squote"
    by (simp add: find_unsafe_def unsafe_char_def word_char_def)
  show ?thesis
    using safe unsafe find_unsafe_dir_with_space
      workdir_quotes_whole_dir
        [of "\<lparr>args = [], dir = ''dir/ with space/'', env = [], name = ''aname''\<rparr>"
            "\<lparr>args = [], dir = ''adir'', env = [], name = ''aname''\<rparr>"]
      workdir_quotes_whole_dir
        [of "\<lparr>args = [], dir = ''a'b'', env = [], name = ''aname''\<rparr>"
            "\<lparr>args = [], dir = ''adir'', env = [], name = ''aname''\<rparr>"]
    by simp
qed

text \<open>
  The claim as stated, quoting each segment and joining the quoted segments, fails on the
  directory \<^verbatim>\<open>dir/ with space/\<close>: the code gives \<^verbatim>\<open>/workspace/'dir/ with space/'\<close>,
  segment by segment it would be \<^verbatim>\<open>/workspace/dir/' with space'/''\<close>.
\<close>

theorem workdir_per_segment_counterexample:
  "flag_value ''--workdir''
     (generate_command \<lparr>args = [], dir = ''dir/ with space/'', env = [], name = ''aname''\<rparr>)
   \<noteq> Some (path_join ''/workspace'' (quote_segments ''dir/ with space/''))"
  by (simp add: workdir_eq quote_dir_with_space path_join_def quote_segments_def quote_def
      find_unsafe_def unsafe_char_def word_char_def)

text \<open>
  C3, as the code has it: the \<open>--workdir\<close> flag is always there; with an empty \<open>dir\<close>
  its value is exactly \<open>/workspace\<close>; with a non-empty \<open>dir\<close> whose quoted form does not
  begin with the separator it is \<open>/workspace/\<close> followed by the quoted \<open>dir\<close>; the
  directory \<^verbatim>\<open>dir/ with space/\<close> gives \<^verbatim>\<open>/workspace/'dir/ with space/'\<close>.
\<close>

theorem workdir_value:
  "(dir step = [] \<longrightarrow>
      flag_value ''--workdir'' (generate_command step) = Some ''/workspace'')
   \<and> (dir step' \<noteq> [] \<and> take 1 (quote (dir step')) \<noteq> ''/'' \<longrightarrow>
      flag_value ''--workdir'' (generate_command step') =
        Some (''/workspace/'' @ quote (dir step')))
   \<and> flag_value ''--workdir'' (generate_command (step''\<lparr>dir := ''dir/ with space/''\<rparr>)) =
        Some (''/workspace/'dir/ with space/'' @ [squote])"
  by (simp add: workdir_eq quote_dir_with_space path_join_def)

theorem workdir_value_witness:
  "dir \<lparr>args = [''arg1''], dir = [], env = [], name = ''aname''\<rparr> = []
   \<and> flag_value ''--workdir''
       (generate_command \<lparr>args = [''arg1''], dir = [], env = [], name = ''aname''\<rparr>) =
       Some ''/workspace''
   \<and> dir \<lparr>args = [''arg1''], dir = ''adir'', env = [], name = ''aname''\<rparr> \<noteq> []
   \<and> take 1 (quote (dir \<lparr>args = [''arg1''], dir = ''adir'', env = [], name = ''aname''\<rparr>))
       \<noteq> ''/''
   \<and> flag_value ''--workdir''
       (generate_command \<lparr>args = [''arg1''], dir = ''adir'', env = [], name = ''aname''\<rparr>) =
       Some ''/workspace/adir''"
proof -
  have q: "quote ''adir'' = ''adir''"
    by (simp add: quote_def find_unsafe_def unsafe_char_def word_char_def)
  show ?thesis
    using q workdir_value
      [of "\<lparr>args = [''arg1''], dir = [], env = [], name = ''aname''\<rparr>"
          "\<lparr>args = [''arg1''], dir = ''adir'', env = [], name = ''aname''\<rparr>"]
    by simp
qed

text \<open>
  The claim as stated, for every non-empty \<open>dir\<close>, fails on the directory \<^verbatim>\<open>/etc\<close>: its
  quoted form begins with the separator, the join drops the workspace root, and the value
  is \<^verbatim>\<open>/etc\<close>, not \<^verbatim>\<open>/workspace//etc\<close>.
\<close>

theorem workdir_value_counterexample:
  "flag_value ''--workdir''
     (generate_command \<lparr>args = [], dir = ''/etc'', env = [], name = ''debian''\<rparr>) = Some ''/etc''
   \<and> flag_value ''--workdir''
     (generate_command \<lparr>args = [], dir = ''/etc'', env = [], name = ''debian''\<rparr>)
     \<noteq> Some (''/workspace/'' @ quote ''/etc'')"
  by (simp add: workdir_eq quote_safe find_unsafe_etc path_join_def)

text \<open>
  C6: the tokens come in this order: the fixed \<^verbatim>\<open>docker run\<close> prefix with the three
  volume mounts and the \<open>--workdir\<close> flag with its value, then for each \<open>env\<close> entry in
  order \<open>--env\<close> and the quoted entry, then the quoted image name once, then every
  element of \<open>args\<close> quoted, in order.
\<close>

theorem generate_command_tokens:
  "generate_command step =
     [''docker'', ''run'',
      ''--volume'', ''/var/run/docker.sock:/var/run/docker.sock'',
      ''--volume'', ''/root/.docker:/root/.docker'',
      ''--volume'', ''${HOST_WORKSPACE}:/workspace'',
      ''--workdir'',
      (if dir step = [] then ''/workspace'' else path_join ''/workspace'' (quote (dir step)))]
     @ concat (map (\<lambda>e. [''--env'', quote e]) (env step))
     @ [quote (name step)]
     @ map quote (args step)"
  by (rule generate_command_eq)

lemma collect_quote_dyn: "collect (map (quote_dyn \<circ> PStr) xs) = Inr (map quote xs)"
  by (induction xs) (simp_all add: bind_result_def)

lemma quoted_env_loop_strings:
  "quoted_env_loop acc (map PStr es) = Inr (foldl (\<lambda>acc e. acc @ [''--env'', quote e]) acc es)"
  by (induction es arbitrary: acc) (simp_all add: bind_result_def)

text \<open>
  C9: lowering cannot fail on a structurally valid step. Run on a step whose \<open>name\<close> and
  \<open>dir\<close> are strings and whose \<open>args\<close> and \<open>env\<close> are lists of strings, no operation of
  \<^verbatim>\<open>generate_command\<close> raises, and the result is the token list.
\<close>

theorem generate_command_total:
  "generate_command_dyn (as_dyn step) = Inr (generate_command step)"
  by (simp add: generate_command_dyn_def as_dyn_def collect_quote_dyn quoted_env_loop_strings
      bind_result_def generate_command_def Let_def)



section \<open>Properties of script assembly\<close>

lemma generate_script_eq:
  "generate_script cloudbuild =
     BUILD_SCRIPT_HEADER
     @ concat (map (\<lambda>step. str_join '' '' (generate_command step) @ [newline, newline])
                 (steps cloudbuild))
     @ BUILD_SCRIPT_FOOTER"
  by (simp add: generate_script_def Let_def comp_def
      foldl_append_concat [where f = "\<lambda>c. str_join '' '' c @ [newline, newline]"])

text \<open>
  C7: the script is the fixed header, then for each step of the recipe, in order, its
  tokens joined by single spaces and followed by a blank line, then the fixed footer.
\<close>

theorem generate_script_text:
  "generate_script cloudbuild =
     BUILD_SCRIPT_HEADER
     @ concat (map (\<lambda>step. str_join '' '' (generate_command step) @ [newline, newline])
                 (steps cloudbuild))
     @ BUILD_SCRIPT_FOOTER"
  by (simp add: generate_script_def Let_def comp_def
      foldl_append_concat [where f = "\<lambda>c. str_join '' '' c @ [newline, newline]"])

lemma write_commands_result:
  "buffers w f = Some b \<Longrightarrow>
   write_commands f cmds w =
     (Inr (),
      w\<lparr>buffers := (buffers w)
           (f \<mapsto> b @ concat (map (\<lambda>c. str_join '' '' c @ [newline, newline]) cmds))\<rparr>)"
proof (induction cmds arbitrary: w b)
  case Nil
  then show ?case by (simp add: action_return_def map_upd_triv)
next
  case (Cons c cmds)
  let ?line = "str_join '' '' c @ [newline, newline]"
  let ?w = "w\<lparr>buffers := (buffers w)(f \<mapsto> b @ ?line)\<rparr>"
  have step: "write_commands f (c # cmds) w = write_commands f cmds ?w"
    using Cons.prems by (simp add: action_bind_def StringIO_write_def)
  have "buffers ?w f = Some (b @ ?line)" by simp
  from Cons.IH [OF this] show ?case
    unfolding step by (simp cong: if_cong)
qed

lemma generate_script_run_result:
  "generate_script_run cloudbuild w =
     (Inr (module_header w
           @ concat (map (\<lambda>step. str_join '' '' (generate_command step) @ [newline, newline])
                       (steps cloudbuild))
           @ module_footer w),
      w\<lparr>buffers := (buffers w)(next_buffer w := None), next_buffer := Suc (next_buffer w)\<rparr>)"
  by (simp add: generate_script_run_def action_bind_def action_return_def StringIO_new_def
      read_header_def read_footer_def StringIO_write_def StringIO_getvalue_def
      StringIO_close_def write_commands_result comp_def)

text \<open>
  C8: assembly is deterministic. Run in any state of the interpreter, \<^verbatim>\<open>generate_script\<close>
  returns a text and no error; it leaves the two global strings of the module as they
  were and works on a buffer of its own, so a second invocation on the same recipe, run
  in the state the first one left, returns the same text, character for character. With
  the module's own header and footer that text is \<open>generate_script cloudbuild\<close>.
\<close>

theorem generate_script_deterministic:
  "fst (generate_script_run cloudbuild (snd (generate_script_run cloudbuild w))) =
     fst (generate_script_run cloudbuild w)
   \<and> (\<exists>text. fst (generate_script_run cloudbuild w) = Inr text)
   \<and> module_header (snd (generate_script_run cloudbuild w)) = module_header w
   \<and> module_footer (snd (generate_script_run cloudbuild w)) = module_footer w
   \<and> fst (generate_script_run cloudbuild
            (w\<lparr>module_header := BUILD_SCRIPT_HEADER, module_footer := BUILD_SCRIPT_FOOTER\<rparr>)) =
       Inr (generate_script cloudbuild)"
  by (simp add: generate_script_run_result generate_script_eq)

section \<open>Properties of validation\<close>

lemma get_field_value_list_dict:
  "get_field_value_list (PDict m) (Name k) =
     (case map_of m k of
        None \<Rightarrow> Inr []
      | Some (PList xs) \<Rightarrow> Inr xs
      | Some v \<Rightarrow> Inl (ValueError (FieldType (Name k) list_type (py_type v))))"
  by (simp add: get_field_value_list_def)

lemma get_field_value_str_dict:
  "get_field_value_str (PDict m) (Name k) =
     (case string_field (map_of m k) of
        Some s \<Rightarrow> Inr s
      | None \<Rightarrow> Inl (ValueError (FieldType (Name k) str_type (py_type (the (map_of m k))))))"
  by (cases "map_of m k"; cases "the (map_of m k)") (auto simp: get_field_value_str_def)

lemma get_field_value_str_index:
  "i < length xs \<Longrightarrow> get_field_value_str (PList xs) (Index i) = element_result i (xs ! i)"
  by (cases "xs ! i") (simp_all add: get_field_value_str_def element_result_def)

lemma elements_by_position:
  "map (\<lambda>index. get_field_value_str (PList xs) (Index index)) [0..<length xs] =
   map (\<lambda>(i, v). element_result i v) (enumerate 0 xs)"
  by (rule nth_equalityI) (simp_all add: get_field_value_str_index nth_enumerate_eq)

lemma collect_elements_Some:
  "elements_str xs = Some ss \<Longrightarrow>
   collect (map (\<lambda>(i, v). element_result i v) (enumerate k xs)) = Inr ss"
proof (induction xs arbitrary: k ss)
  case Nil
  then show ?case by simp
next
  case (Cons x xs)
  then show ?case
    by (auto simp: bind_result_def element_result_def split: option.splits)
qed

lemma collect_elements_None:
  "elements_str xs = None \<Longrightarrow>
   \<exists>msg. collect (map (\<lambda>(i, v). element_result i v) (enumerate k xs)) = Inl (ValueError msg)"
proof (induction xs arbitrary: k)
  case Nil
  then show ?case by simp
next
  case (Cons x xs)
  show ?case
  proof (cases "element_str x")
    case None
    then show ?thesis by (simp add: bind_result_def element_result_def)
  next
    case (Some s)
    with Cons.prems have "elements_str xs = None" by simp
    from Cons.IH [OF this, of "Suc k"] Some show ?thesis
      by (auto simp: bind_result_def element_result_def)
  qed
qed

lemma collect_elements_iff:
  "collect (map (\<lambda>index. get_field_value_str (PList xs) (Index index)) [0..<length xs]) = Inr ss
   \<longleftrightarrow> elements_str xs = Some ss"
proof (cases "elements_str xs")
  case None
  from collect_elements_None [OF this, of 0] None show ?thesis
    by (auto simp: elements_by_position)
next
  case (Some ss')
  from collect_elements_Some [OF this, of 0] Some show ?thesis
    by (auto simp: elements_by_position)
qed

lemma collect_elements_error:
  assumes "collect (map (\<lambda>index. get_field_value_str (PList xs) (Index index)) [0..<length xs])
             = Inl e"
  shows "\<exists>msg. e = ValueError msg"
proof (cases "elements_str xs")
  case None
  from collect_elements_None [OF this, of 0] assms show ?thesis
    by (auto simp: elements_by_position)
next
  case (Some ss')
  from collect_elements_Some [OF this, of 0] assms show ?thesis
    by (auto simp: elements_by_position)
qed

lemma string_field_iff:
  "get_field_value_str (PDict m) (Name k) = Inr s \<longleftrightarrow> string_field (map_of m k) = Some s"
  by (auto simp: get_field_value_str_dict split: option.splits)

lemma string_field_error:
  "get_field_value_str (PDict m) (Name k) = Inl e \<Longrightarrow> \<exists>msg. e = ValueError msg"
  by (auto simp: get_field_value_str_dict split: option.splits)

lemma list_field_error:
  "get_field_value_list (PDict m) (Name k) = Inl e \<Longrightarrow> \<exists>msg. e = ValueError msg"
  by (auto simp: get_field_value_list_dict split: option.splits pyval.splits)

lemma sequence_field_iff:
  "(\<exists>raw. get_field_value_list (PDict m) (Name k) = Inr raw \<and>
      collect (map (\<lambda>index. get_field_value_str (PList raw) (Index index)) [0..<length raw])
        = Inr ss)
   \<longleftrightarrow> sequence_field (map_of m k) = Some ss"
proof (cases "map_of m k")
  case None
  then show ?thesis by (auto simp: get_field_value_list_dict)
next
  case (Some v)
  then show ?thesis
    by (cases v) (auto simp: get_field_value_list_dict collect_elements_iff)
qed

lemma get_step_Inr_iff:
  "get_step (PDict m) = Inr st \<longleftrightarrow>
     sequence_field (map_of m ''args'') = Some (args st) \<and>
     string_field (map_of m ''dir'') = Some (dir st) \<and>
     sequence_field (map_of m ''env'') = Some (env st) \<and>
     string_field (map_of m ''name'') = Some (name st)"
  (is "?l \<longleftrightarrow> ?r")
proof
  assume ?l
  then show ?r
    unfolding sequence_field_iff [symmetric] string_field_iff [symmetric]
    by (auto simp: get_step_def bind_result_def split: sum.splits)
next
  assume r: ?r
  from r obtain raw_args where a:
    "get_field_value_list (PDict m) (Name ''args'') = Inr raw_args"
    "collect (map (\<lambda>index. get_field_value_str (PList raw_args) (Index index))
                [0..<length raw_args]) = Inr (args st)"
    unfolding sequence_field_iff [symmetric] by blast
  from r obtain raw_env where e:
    "get_field_value_list (PDict m) (Name ''env'') = Inr raw_env"
    "collect (map (\<lambda>index. get_field_value_str (PList raw_env) (Index index))
                [0..<length raw_env]) = Inr (env st)"
    unfolding sequence_field_iff [symmetric] by blast
  from r have d: "get_field_value_str (PDict m) (Name ''dir'') = Inr (dir st)"
    and n: "get_field_value_str (PDict m) (Name ''name'') = Inr (name st)"
    by (simp_all add: string_field_iff)
  show ?l
    by (simp add: get_step_def bind_result_def a e d n)
qed

lemma get_step_error:
  assumes "get_step v = Inl e"
  shows "\<exists>msg. e = ValueError msg"
proof (cases v)
  case (PDict m)
  with assms show ?thesis
    by (auto simp: get_step_def bind_result_def split: sum.splits
        dest: list_field_error string_field_error collect_elements_error)
qed (use assms in \<open>auto simp: get_step_def\<close>)

lemma str_int_2: "str_int 2 = ''2''"
  by (simp add: str_int_def str_nat.simps digit_char_def)

text \<open>
  C4, as the code has it: validation of the top-level document fails with a
  \<^verbatim>\<open>ValueError\<close> when \<open>steps\<close> is absent, when it is present and not a list, and when
  it is the empty list. The value that is not a list fails with the message of the field
  extraction, which names the field, the expected and the found type; the absent field and
  the empty list fail with one and the same message, \<^verbatim>\<open>No steps defined in\<close> followed
  by the configuration file's name.
\<close>

theorem get_cloudbuild_steps_required:
  "(map_of m1 ''steps'' = None \<longrightarrow>
      get_cloudbuild (PDict m1) flags = Inl (ValueError (NoSteps (config flags))))
   \<and> (map_of m2 ''steps'' = Some v \<and> py_type v \<noteq> list_type \<longrightarrow>
      get_cloudbuild (PDict m2) flags =
        Inl (ValueError (FieldType (Name ''steps'') list_type (py_type v))))
   \<and> (map_of m3 ''steps'' = Some (PList []) \<longrightarrow>
      get_cloudbuild (PDict m3) flags = Inl (ValueError (NoSteps (config flags))))"
proof (intro conjI impI)
  assume "map_of m1 ''steps'' = None"
  then show "get_cloudbuild (PDict m1) flags = Inl (ValueError (NoSteps (config flags)))"
    by (simp add: get_cloudbuild_def get_field_value_list_dict bind_result_def)
next
  assume "map_of m2 ''steps'' = Some v \<and> py_type v \<noteq> list_type"
  then show "get_cloudbuild (PDict m2) flags =
      Inl (ValueError (FieldType (Name ''steps'') list_type (py_type v)))"
    by (cases v) (simp_all add: get_cloudbuild_def get_field_value_list_dict bind_result_def)
next
  assume "map_of m3 ''steps'' = Some (PList [])"
  then show "get_cloudbuild (PDict m3) flags = Inl (ValueError (NoSteps (config flags)))"
    by (simp add: get_cloudbuild_def get_field_value_list_dict bind_result_def)
qed

theorem get_cloudbuild_steps_required_witness:
  "map_of [(''foo'', PStr ''bar'')] ''steps'' = None
   \<and> get_cloudbuild (PDict [(''foo'', PStr ''bar'')])
        \<lparr>config = ''some_config_file'', arg_output_script = ''some_output_script'',
         arg_run = False\<rparr> = Inl (ValueError (NoSteps ''some_config_file''))
   \<and> map_of [(''steps'', PStr ''astring'')] ''steps'' = Some (PStr ''astring'')
   \<and> py_type (PStr ''astring'') \<noteq> list_type
   \<and> get_cloudbuild (PDict [(''steps'', PStr ''astring'')])
        \<lparr>config = ''some_config_file'', arg_output_script = ''some_output_script'',
         arg_run = False\<rparr> = Inl (ValueError (FieldType (Name ''steps'') list_type str_type))
   \<and> map_of [(''steps'', PList [])] ''steps'' = Some (PList [])
   \<and> get_cloudbuild (PDict [(''steps'', PList [])])
        \<lparr>config = ''some_config_file'', arg_output_script = ''some_output_script'',
         arg_run = False\<rparr> = Inl (ValueError (NoSteps ''some_config_file''))"
  using get_cloudbuild_steps_required
    [of "[(''foo'', PStr ''bar'')]"
        "\<lparr>config = ''some_config_file'', arg_output_script = ''some_output_script'',
          arg_run = False\<rparr>"
        "[(''steps'', PStr ''astring'')]" "PStr ''astring''" "[(''steps'', PList [])]"]
  by simp

text \<open>
  The claim as stated asks for three distinct messages. A document without \<open>steps\<close> and a
  document whose \<open>steps\<close> is the empty list fail with the same error value.
\<close>

theorem steps_missing_and_empty_same_message:
  "get_cloudbuild (PDict [(''foo'', PStr ''bar'')])
     \<lparr>config = ''some_config_file'', arg_output_script = ''some_output_script'',
      arg_run = False\<rparr> = Inl (ValueError (NoSteps ''some_config_file''))
   \<and> get_cloudbuild (PDict [(''steps'', PList [])])
     \<lparr>config = ''some_config_file'', arg_output_script = ''some_output_script'',
      arg_run = False\<rparr> = Inl (ValueError (NoSteps ''some_config_file''))"
  by (simp add: get_cloudbuild_def get_field_value_list_dict bind_result_def)

text \<open>
  C5: for every step mapping, an absent \<open>name\<close>, \<open>args\<close>, \<open>dir\<close> or \<open>env\<close> is the empty
  string or the empty sequence, without error; a field present with a wrong type (a
  \<open>name\<close> or \<open>dir\<close> that is not a string, an \<open>args\<close> or \<open>env\<close> that is not a list) is a
  validation error; an element of \<open>args\<close> or \<open>env\<close> that is a scalar and not a string (an
  integer, a floating-point number, a boolean, a null) is taken in its string form, an
  element that is a list or a mapping is a validation error.
  \<open>string_field\<close> and \<open>sequence_field\<close> say this field by field; validation succeeds with
  exactly their values when all four accept, and fails with a \<^verbatim>\<open>ValueError\<close> when one of
  them rejects. The empty mapping gives the empty step.
\<close>

theorem get_step_fields:
  "(sequence_field (map_of m ''args'') = Some a \<and> string_field (map_of m ''dir'') = Some d \<and>
    sequence_field (map_of m ''env'') = Some e \<and> string_field (map_of m ''name'') = Some n
      \<longrightarrow> get_step (PDict m) = Inr \<lparr>args = a, dir = d, env = e, name = n\<rparr>)
   \<and> (sequence_field (map_of m' ''args'') = None \<or> string_field (map_of m' ''dir'') = None \<or>
      sequence_field (map_of m' ''env'') = None \<or> string_field (map_of m' ''name'') = None
      \<longrightarrow> (\<exists>msg. get_step (PDict m') = Inl (ValueError msg)))
   \<and> get_step (PDict []) = Inr \<lparr>args = [], dir = [], env = [], name = []\<rparr>"
proof (intro conjI impI)
  assume "sequence_field (map_of m ''args'') = Some a \<and> string_field (map_of m ''dir'') = Some d \<and>
    sequence_field (map_of m ''env'') = Some e \<and> string_field (map_of m ''name'') = Some n"
  then show "get_step (PDict m) = Inr \<lparr>args = a, dir = d, env = e, name = n\<rparr>"
    by (simp add: get_step_Inr_iff)
next
  assume bad: "sequence_field (map_of m' ''args'') = None \<or> string_field (map_of m' ''dir'') = None \<or>
      sequence_field (map_of m' ''env'') = None \<or> string_field (map_of m' ''name'') = None"
  show "\<exists>msg. get_step (PDict m') = Inl (ValueError msg)"
  proof (cases "get_step (PDict m')")
    case (Inl err)
    with get_step_error [OF Inl] show ?thesis by auto
  next
    case (Inr st)
    with bad show ?thesis by (auto simp: get_step_Inr_iff)
  qed
next
  show "get_step (PDict []) = Inr \<lparr>args = [], dir = [], env = [], name = []\<rparr>"
    by (simp add: get_step_Inr_iff)
qed

theorem get_step_fields_witness:
  "sequence_field
     (map_of [(''name'', PStr ''aname''),
              (''args'', PList [PStr ''arg1'', PInt 2, PFloat ''1.5'', PBool True, PNone]),
              (''dir'', PStr ''adir'')] ''args'') =
     Some [''arg1'', ''2'', ''1.5'', ''True'', ''None'']
   \<and> string_field
     (map_of [(''name'', PStr ''aname''),
              (''args'', PList [PStr ''arg1'', PInt 2, PFloat ''1.5'', PBool True, PNone]),
              (''dir'', PStr ''adir'')] ''dir'') = Some ''adir''
   \<and> sequence_field
     (map_of [(''name'', PStr ''aname''),
              (''args'', PList [PStr ''arg1'', PInt 2, PFloat ''1.5'', PBool True, PNone]),
              (''dir'', PStr ''adir'')] ''env'') = Some []
   \<and> string_field
     (map_of [(''name'', PStr ''aname''),
              (''args'', PList [PStr ''arg1'', PInt 2, PFloat ''1.5'', PBool True, PNone]),
              (''dir'', PStr ''adir'')] ''name'') = Some ''aname''
   \<and> get_step
     (PDict [(''name'', PStr ''aname''),
             (''args'', PList [PStr ''arg1'', PInt 2, PFloat ''1.5'', PBool True, PNone]),
             (''dir'', PStr ''adir'')]) =
     Inr \<lparr>args = [''arg1'', ''2'', ''1.5'', ''True'', ''None''], dir = ''adir'', env = [],
          name = ''aname''\<rparr>
   \<and> sequence_field (map_of [(''args'', PList [PList []])] ''args'') = None
   \<and> (\<exists>msg. get_step (PDict [(''args'', PList [PList []])]) = Inl (ValueError msg))"
  using get_step_fields
    [of "[(''name'', PStr ''aname''),
          (''args'', PList [PStr ''arg1'', PInt 2, PFloat ''1.5'', PBool True, PNone]),
          (''dir'', PStr ''adir'')]"
        "[''arg1'', ''2'', ''1.5'', ''True'', ''None'']" "''adir''" "[]" "''aname''"
        "[(''args'', PList [PList []])]"]
  by (simp add: str_int_2)

end
